theory Spec2Isabelle
  imports Main
begin

section \<open>JavaScript values\<close>

text \<open>
  The translator in \<^verbatim>\<open>block_translators/deepseek.ts\<close> inspects its input with
  \<^verbatim>\<open>typeof\<close>, \<^verbatim>\<open>Array.isArray\<close> and two type guards, so the fields it tests are
  modelled as untyped JavaScript values. Numbers are only ever string lengths
  here, so they are integers; an object is the list of its own properties.
\<close>

datatype jsval =
    JUndefined
  | JNull
  | JBool bool
  | JNum int
  | JStr string
  | JArr "jsval list"
  | JObj "(string \<times> jsval) list"

datatype error = TypeError

text \<open>Sequencing of computations that may throw.\<close>

definition bind_res :: "error + 'a \<Rightarrow> ('a \<Rightarrow> error + 'b) \<Rightarrow> error + 'b" where
  "bind_res r f = (case r of Inl e \<Rightarrow> Inl e | Inr v \<Rightarrow> f v)"

text \<open>\<^verbatim>\<open>a && b\<close> on conditions: the right operand is evaluated only when the left is true.\<close>

definition js_and :: "error + bool \<Rightarrow> error + bool \<Rightarrow> error + bool" where
  "js_and a b = bind_res a (\<lambda>x. if x then b else Inr False)"

fun typeof_js :: "jsval \<Rightarrow> string" where
  "typeof_js JUndefined = ''undefined''"
| "typeof_js JNull = ''object''"
| "typeof_js (JBool b) = ''boolean''"
| "typeof_js (JNum n) = ''number''"
| "typeof_js (JStr s) = ''string''"
| "typeof_js (JArr xs) = ''object''"
| "typeof_js (JObj kvs) = ''object''"

fun isArray :: "jsval \<Rightarrow> bool" where
  "isArray (JArr xs) = True"
| "isArray v = False"

text \<open>
  Reading a named property \<^verbatim>\<open>v.k\<close> (\<open>k\<close> is never an index here). On
  \<^verbatim>\<open>undefined\<close> and \<^verbatim>\<open>null\<close> the read throws; a property an object does not
  have reads as \<^verbatim>\<open>undefined\<close>; strings and arrays have a \<^verbatim>\<open>length\<close>.
\<close>

fun get_prop :: "jsval \<Rightarrow> string \<Rightarrow> error + jsval" where
  "get_prop JUndefined k = Inl TypeError"
| "get_prop JNull k = Inl TypeError"
| "get_prop (JObj kvs) k = Inr (case map_of kvs k of None \<Rightarrow> JUndefined | Some v \<Rightarrow> v)"
| "get_prop (JStr s) k = Inr (if k = ''length'' then JNum (int (length s)) else JUndefined)"
| "get_prop (JArr xs) k = Inr (if k = ''length'' then JNum (int (length xs)) else JUndefined)"
| "get_prop (JBool b) k = Inr JUndefined"
| "get_prop (JNum n) k = Inr JUndefined"

text \<open>\<^verbatim>\<open>a > b\<close>; both operands are numbers wherever the translator compares.\<close>

fun js_gt :: "jsval \<Rightarrow> jsval \<Rightarrow> bool" where
  "js_gt (JNum a) (JNum b) = (b < a)"
| "js_gt a b = False"

text \<open>
  Modelled from the spec: the type guards \<^verbatim>\<open>_isObject\<close> and \<^verbatim>\<open>_isString\<close> are imported
  from \<^verbatim>\<open>./utils.js\<close>, which is not among the sources. The spec reads the guard as
  "the value is present, is of string type"; a missing or null metadata bag is
  "no reasoning". They are the usual guards \<^verbatim>\<open>typeof v === "object" && v !== null\<close>
  and \<^verbatim>\<open>typeof v === "string"\<close>.
\<close>

definition isObject :: "jsval \<Rightarrow> bool" where
  "isObject v = (typeof_js v = ''object'' \<and> v \<noteq> JNull)"

text \<open>
  Modelled from the spec: \<^verbatim>\<open>_isString\<close> of the missing \<^verbatim>\<open>./utils.js\<close>, "is of string
  type".
\<close>

definition isString :: "jsval \<Rightarrow> bool" where
  "isString v = (typeof_js v = ''string'')"

section \<open>Messages\<close>

text \<open>
  \<^verbatim>\<open>a ?? b\<close>: the right operand replaces \<^verbatim>\<open>undefined\<close> and \<^verbatim>\<open>null\<close>.
\<close>

definition nullish_coalesce :: "jsval \<Rightarrow> jsval \<Rightarrow> jsval" where
  "nullish_coalesce a b = (if a = JUndefined \<or> a = JNull then b else a)"

text \<open>
  The values a \<^verbatim>\<open>for ... of\<close> loop visits: the elements of an array, the
  characters of a string; any other value here is not iterable and the loop
  throws.
\<close>

fun iterate :: "jsval \<Rightarrow> error + jsval list" where
  "iterate (JArr xs) = Inr xs"
| "iterate (JStr cs) = Inr (map (\<lambda>c. JStr [c]) cs)"
| "iterate JUndefined = Inl TypeError"
| "iterate JNull = Inl TypeError"
| "iterate (JBool b) = Inl TypeError"
| "iterate (JNum n) = Inl TypeError"
| "iterate (JObj kvs) = Inl TypeError"

text \<open>
  The fields of a message object that matter here. TypeScript's declared types
  are not checked at run time, so every field is an arbitrary value; a missing
  field is \<^verbatim>\<open>undefined\<close>. \<^verbatim>\<open>response_metadata\<close> (the provider tag) is carried by every
  message and never read by the translator.
\<close>

record Message =
  content :: jsval
  additional_kwargs :: jsval
  tool_calls :: jsval
  response_metadata :: jsval

text \<open>The parameter type \<^verbatim>\<open>AIMessage | AIMessageChunk\<close>.\<close>

datatype ai_message =
    AIMessage (fields_of: Message)
  | AIMessageChunk (fields_of: Message)

section \<open>The translator\<close>

text \<open>
  What the body of the function can read and write: the message object it was
  passed and its local array \<^verbatim>\<open>blocks\<close>.
\<close>

record state =
  message :: Message
  blocks :: "jsval list"

text \<open>\<^verbatim>\<open>blocks.push(b)\<close>.\<close>

definition push :: "jsval \<Rightarrow> state \<Rightarrow> state" where
  "push b s = s\<lparr>blocks := blocks s @ [b]\<rparr>"

text \<open>A \<^verbatim>\<open>for ... of\<close> loop over the visited values; a throwing body ends it.\<close>

fun for_of :: "(jsval \<Rightarrow> state \<Rightarrow> error + state) \<Rightarrow> jsval list \<Rightarrow> state \<Rightarrow> error + state" where
  "for_of body [] s = Inr s"
| "for_of body (x # xs) s = bind_res (body x s) (for_of body xs)"

text \<open>Lines 41 to 45: the condition guarding the reasoning block.\<close>

definition reasoning_cond :: "state \<Rightarrow> error + bool" where
  "reasoning_cond s =
     js_and (Inr (isObject (additional_kwargs (message s))))
       (js_and
          (bind_res (get_prop (additional_kwargs (message s)) ''reasoning_content'')
             (\<lambda>rc. Inr (isString rc)))
          (bind_res (get_prop (additional_kwargs (message s)) ''reasoning_content'')
             (\<lambda>rc. bind_res (get_prop rc ''length'')
                (\<lambda>n. Inr (js_gt n (JNum 0))))))"

text \<open>Lines 41 to 50.\<close>

definition reasoning_step :: "state \<Rightarrow> error + state" where
  "reasoning_step s =
     bind_res (reasoning_cond s)
       (\<lambda>c. if c
             then bind_res (get_prop (additional_kwargs (message s)) ''reasoning_content'')
                    (\<lambda>rc. Inr (push (JObj [(''type'', JStr ''reasoning''),
                                           (''reasoning'', rc)]) s))
             else Inr s)"

text \<open>Lines 53 to 63.\<close>

definition content_step :: "state \<Rightarrow> error + state" where
  "content_step s =
     (if typeof_js (content (message s)) = ''string''
      then Inr (push (JObj [(''type'', JStr ''text''), (''text'', content (message s))]) s)
      else if isArray (content (message s))
      then bind_res (iterate (content (message s)))
             (\<lambda>elems. for_of (\<lambda>block s'. Inr (push block s')) elems s)
      else Inr s)"

text \<open>Lines 67 to 72: the body of the loop over the tool calls.\<close>

definition tool_call_body :: "jsval \<Rightarrow> state \<Rightarrow> error + state" where
  "tool_call_body toolCall s =
     bind_res (get_prop toolCall ''id'')
       (\<lambda>i. bind_res (get_prop toolCall ''name'')
          (\<lambda>n. bind_res (get_prop toolCall ''args'')
             (\<lambda>a. Inr (push (JObj [(''type'', JStr ''tool_call''), (''id'', i),
                                    (''name'', n), (''args'', a)]) s))))"

text \<open>Lines 66 to 73.\<close>

definition tool_call_step :: "state \<Rightarrow> error + state" where
  "tool_call_step s =
     bind_res (iterate (nullish_coalesce (tool_calls (message s)) (JArr [])))
       (\<lambda>elems. for_of tool_call_body elems s)"

text \<open>Lines 39 to 73: the three steps in sequence.\<close>

definition body :: "state \<Rightarrow> error + state" where
  "body s = bind_res (reasoning_step s) (\<lambda>s1. bind_res (content_step s1) tool_call_step)"

text \<open>Lines 34 to 76: the array starts empty and is returned after the three steps.\<close>

definition convertToV1FromDeepSeek :: "ai_message \<Rightarrow> error + jsval list" where
  "convertToV1FromDeepSeek msg =
     bind_res (body \<lparr>message = fields_of msg, blocks = []\<rparr>) (\<lambda>s. Inr (blocks s))"

text \<open>
  Two calls one after the other on the same message object: the second call
  finds the object as the first left it, and starts with an array of its own.
\<close>

definition two_successive_calls :: "ai_message \<Rightarrow> error + (jsval list \<times> jsval list)" where
  "two_successive_calls msg =
     bind_res (body \<lparr>message = fields_of msg, blocks = []\<rparr>)
       (\<lambda>s1. bind_res (body \<lparr>message = message s1, blocks = []\<rparr>)
          (\<lambda>s2. Inr (blocks s1, blocks s2)))"

text \<open>Lines 78 to 81: the registered translator.\<close>

record Translator =
  translateContent :: "ai_message \<Rightarrow> error + jsval list"
  translateContentChunk :: "ai_message \<Rightarrow> error + jsval list"

definition ChatDeepSeekTranslator :: Translator where
  "ChatDeepSeekTranslator =
     \<lparr> translateContent = convertToV1FromDeepSeek,
       translateContentChunk = convertToV1FromDeepSeek \<rparr>"

section \<open>The specification's view of the output\<close>

text \<open>
  The reasoning string of a metadata bag, in the spec's words: the value under
  \<^verbatim>\<open>reasoning_content\<close> when it is present, of string type and of non-zero length.
\<close>

fun spec_reasoning :: "jsval \<Rightarrow> string option" where
  "spec_reasoning (JObj kvs) =
     (case map_of kvs ''reasoning_content'' of
        Some (JStr r) \<Rightarrow> (if r = [] then None else Some r)
      | _ \<Rightarrow> None)"
| "spec_reasoning v = None"

text \<open>The spec's \<^verbatim>\<open>reasoning { reasoning: string }\<close>, at most one.\<close>

definition spec_reasoning_blocks :: "Message \<Rightarrow> jsval list" where
  "spec_reasoning_blocks m =
     (case spec_reasoning (additional_kwargs m) of
        None \<Rightarrow> []
      | Some r \<Rightarrow> [JObj [(''type'', JStr ''reasoning''), (''reasoning'', JStr r)]])"

text \<open>
  The spec's content step: one \<^verbatim>\<open>text { text: string }\<close> for a string, the elements
  themselves for a sequence.
\<close>

fun spec_content_blocks_of :: "jsval \<Rightarrow> jsval list" where
  "spec_content_blocks_of (JStr s) = [JObj [(''type'', JStr ''text''), (''text'', JStr s)]]"
| "spec_content_blocks_of (JArr xs) = xs"
| "spec_content_blocks_of v = []"

definition spec_content_blocks :: "Message \<Rightarrow> jsval list" where
  "spec_content_blocks m = spec_content_blocks_of (content m)"

text \<open>
  The tool calls of a message of the declared type, each given by its
  properties: none when \<^verbatim>\<open>tool_calls\<close> is absent, the entries of an array of
  objects; no answer for any other value.
\<close>

fun object_props :: "jsval \<Rightarrow> (string \<times> jsval) list option" where
  "object_props (JObj kvs) = Some kvs"
| "object_props v = None"

fun spec_tool_calls :: "jsval \<Rightarrow> (string \<times> jsval) list list option" where
  "spec_tool_calls JUndefined = Some []"
| "spec_tool_calls JNull = Some []"
| "spec_tool_calls (JArr xs) = those (map object_props xs)"
| "spec_tool_calls v = None"

text \<open>The value an entry has under a key, \<^verbatim>\<open>undefined\<close> when it has none.\<close>

definition entry_value :: "(string \<times> jsval) list \<Rightarrow> string \<Rightarrow> jsval" where
  "entry_value kvs k = (case map_of kvs k of None \<Rightarrow> JUndefined | Some v \<Rightarrow> v)"

text \<open>The spec's \<^verbatim>\<open>tool_call { id, name, args }\<close> of an entry.\<close>

definition spec_tool_call_block :: "(string \<times> jsval) list \<Rightarrow> jsval" where
  "spec_tool_call_block kvs =
     JObj [(''type'', JStr ''tool_call''), (''id'', entry_value kvs ''id''),
           (''name'', entry_value kvs ''name''), (''args'', entry_value kvs ''args'')]"

text \<open>
  The values of \<^verbatim>\<open>tool_calls\<close> on which nothing can throw: absent, a string, or an
  array none of whose entries is \<^verbatim>\<open>undefined\<close> or \<^verbatim>\<open>null\<close>.
\<close>

fun safe_tool_calls :: "jsval \<Rightarrow> bool" where
  "safe_tool_calls JUndefined = True"
| "safe_tool_calls JNull = True"
| "safe_tool_calls (JStr cs) = True"
| "safe_tool_calls (JArr xs) = list_all (\<lambda>x. x \<noteq> JUndefined \<and> x \<noteq> JNull) xs"
| "safe_tool_calls v = False"

text \<open>What a consumer tests with \<^verbatim>\<open>block.type === t\<close>.\<close>

definition has_type :: "string \<Rightarrow> jsval \<Rightarrow> bool" where
  "has_type t b = (get_prop b ''type'' = Inr (JStr t))"

section \<open>Merging chunks\<close>

text \<open>
  Modelled from the spec: the merge of two chunks (\<^verbatim>\<open>AIMessageChunk.concat\<close>) belongs
  to the message classes, which are not among the sources. The spec gives its
  semantics as an external contract: "\<^verbatim>\<open>content\<close> fields concatenate as strings if
  both are strings"; "\<^verbatim>\<open>reasoning_content\<close> concatenates as plain strings with no
  separator, in arrival order; a missing field on either side is treated as an
  empty string for the purpose of concatenation, not as absent, i.e. once either
  side has reasoning, the merged result has reasoning"; the stitching of tool
  calls is "an external contract, not reimplemented here" and is a parameter;
  the provider tag and other metadata are carried through unchanged. Where the
  spec says nothing (contents that are not both strings) there is no result.
\<close>

fun merge_content :: "jsval \<Rightarrow> jsval \<Rightarrow> jsval option" where
  "merge_content (JStr a) (JStr b) = Some (JStr (a @ b))"
| "merge_content a b = None"

text \<open>
  Modelled from the spec: the keys a metadata bag carries; a missing bag carries
  none.
\<close>

fun own_props :: "jsval \<Rightarrow> (string \<times> jsval) list" where
  "own_props (JObj kvs) = kvs"
| "own_props v = []"

text \<open>
  Modelled from the spec: the reasoning of one side, "absent, null, or non-string
  values are all equally no reasoning".
\<close>

definition reasoning_string :: "jsval \<Rightarrow> string option" where
  "reasoning_string kw =
     (case map_of (own_props kw) ''reasoning_content'' of
        Some (JStr r) \<Rightarrow> Some r
      | _ \<Rightarrow> None)"

text \<open>
  Modelled from the spec: "a missing field on either side is treated as an empty
  string for the purpose of concatenation".
\<close>

definition string_or_empty :: "string option \<Rightarrow> string" where
  "string_or_empty x = (case x of None \<Rightarrow> [] | Some r \<Rightarrow> r)"

text \<open>
  Modelled from the spec: the merged metadata bag has reasoning once either side
  has; its other keys are those of the first chunk ("carried through unchanged").
\<close>

definition merge_kwargs :: "jsval \<Rightarrow> jsval \<Rightarrow> jsval" where
  "merge_kwargs a b =
     (if reasoning_string a = None \<and> reasoning_string b = None then a
      else JObj ((''reasoning_content'',
                  JStr (string_or_empty (reasoning_string a) @ string_or_empty (reasoning_string b)))
                 # filter (\<lambda>kv. fst kv \<noteq> ''reasoning_content'') (own_props a)))"

text \<open>
  Modelled from the spec: the tool calls of one side, "default empty".
\<close>

fun tool_calls_or_empty :: "jsval \<Rightarrow> jsval list" where
  "tool_calls_or_empty (JArr xs) = xs"
| "tool_calls_or_empty v = []"

text \<open>
  Modelled from the spec: the merge yields a new chunk from the merged content,
  the merged metadata bag and the stitched tool calls.
\<close>

definition merge ::
  "(jsval list \<Rightarrow> jsval list \<Rightarrow> jsval list) \<Rightarrow> ai_message \<Rightarrow> ai_message \<Rightarrow> ai_message option" where
  "merge stitch a b =
     (case merge_content (content (fields_of a)) (content (fields_of b)) of
        None \<Rightarrow> None
      | Some c \<Rightarrow>
          Some (AIMessageChunk
            \<lparr> content = c,
              additional_kwargs =
                merge_kwargs (additional_kwargs (fields_of a)) (additional_kwargs (fields_of b)),
              tool_calls =
                JArr (stitch (tool_calls_or_empty (tool_calls (fields_of a)))
                             (tool_calls_or_empty (tool_calls (fields_of b)))),
              response_metadata = response_metadata (fields_of a) \<rparr>))"

text \<open>The two chunks of the test "should accumulate reasoning across chunks".\<close>

definition chunk1 :: ai_message where
  "chunk1 = AIMessageChunk
     \<lparr> content = JStr '''',
       additional_kwargs = JObj [(''reasoning_content'', JStr ''Part 1'')],
       tool_calls = JUndefined,
       response_metadata = JObj [(''model_provider'', JStr ''deepseek'')] \<rparr>"

definition chunk2 :: ai_message where
  "chunk2 = AIMessageChunk
     \<lparr> content = JStr ''Answer'',
       additional_kwargs = JObj [(''reasoning_content'', JStr '' Part 2'')],
       tool_calls = JUndefined,
       response_metadata = JObj [(''model_provider'', JStr ''deepseek'')] \<rparr>"

section \<open>The steps as concatenations\<close>

lemma for_of_push:
  "for_of (\<lambda>block s'. Inr (push block s')) xs s = Inr (s\<lparr>blocks := blocks s @ xs\<rparr>)"
  by (induction xs arbitrary: s) (simp_all add: push_def bind_res_def)

lemma reasoning_step_spec:
  "reasoning_step s = Inr (s\<lparr>blocks := blocks s @ spec_reasoning_blocks (message s)\<rparr>)"
proof (cases "additional_kwargs (message s)")
  case (JObj kvs)
  show ?thesis
  proof (cases "map_of kvs ''reasoning_content''")
    case None
    with JObj show ?thesis
      by (simp add: reasoning_step_def reasoning_cond_def js_and_def bind_res_def
          isObject_def isString_def spec_reasoning_blocks_def)
  next
    case (Some v)
    with JObj show ?thesis
      by (cases v)
         (simp_all add: reasoning_step_def reasoning_cond_def js_and_def bind_res_def
            isObject_def isString_def spec_reasoning_blocks_def push_def)
  qed
qed (simp_all add: reasoning_step_def reasoning_cond_def js_and_def bind_res_def
       isObject_def isString_def spec_reasoning_blocks_def)

lemma content_step_spec:
  "content_step s = Inr (s\<lparr>blocks := blocks s @ spec_content_blocks (message s)\<rparr>)"
proof (cases "content (message s)")
  case (JArr xs)
  then show ?thesis
    by (simp add: content_step_def spec_content_blocks_def bind_res_def for_of_push)
qed (simp_all add: content_step_def spec_content_blocks_def push_def)

lemma tool_call_body_object:
  "tool_call_body (JObj kvs) s = Inr (s\<lparr>blocks := blocks s @ [spec_tool_call_block kvs]\<rparr>)"
  by (simp add: tool_call_body_def bind_res_def push_def spec_tool_call_block_def
      entry_value_def)

lemma for_of_tool_call_objects:
  "for_of tool_call_body (map JObj tcs) s
     = Inr (s\<lparr>blocks := blocks s @ map spec_tool_call_block tcs\<rparr>)"
  by (induction tcs arbitrary: s) (simp_all add: tool_call_body_object bind_res_def)

lemma those_object_props:
  "those (map object_props xs) = Some tcs \<Longrightarrow> xs = map JObj tcs"
proof (induction xs arbitrary: tcs)
  case Nil
  then show ?case by simp
next
  case (Cons x xs)
  then show ?case
    by (cases x) (auto split: option.splits)
qed

lemma spec_tool_calls_objects: "spec_tool_calls (JArr (map JObj tcs)) = Some tcs"
  by (induction tcs) simp_all

lemma tool_call_step_spec:
  assumes "spec_tool_calls (tool_calls (message s)) = Some tcs"
  shows "tool_call_step s = Inr (s\<lparr>blocks := blocks s @ map spec_tool_call_block tcs\<rparr>)"
proof (cases "tool_calls (message s)")
  case (JArr xs)
  with assms have "xs = map JObj tcs"
    by (simp add: those_object_props)
  with JArr show ?thesis
    by (simp add: tool_call_step_def nullish_coalesce_def bind_res_def
        for_of_tool_call_objects)
qed (use assms in \<open>auto simp add: tool_call_step_def nullish_coalesce_def bind_res_def\<close>)

lemma body_spec:
  assumes "spec_tool_calls (tool_calls (message s)) = Some tcs"
  shows "body s = Inr (s\<lparr>blocks := blocks s @ spec_reasoning_blocks (message s)
            @ spec_content_blocks (message s) @ map spec_tool_call_block tcs\<rparr>)"
  using assms
  by (simp add: body_def bind_res_def reasoning_step_spec content_step_spec
      tool_call_step_spec)

lemma convert_concat:
  assumes "spec_tool_calls (tool_calls (fields_of msg)) = Some tcs"
  shows "convertToV1FromDeepSeek msg =
     Inr (spec_reasoning_blocks (fields_of msg) @ spec_content_blocks (fields_of msg)
          @ map spec_tool_call_block tcs)"
  using assms
  by (simp add: convertToV1FromDeepSeek_def bind_res_def body_spec)

section \<open>Where the translator throws\<close>

lemma tool_call_body_throws:
  "x = JUndefined \<or> x = JNull \<Longrightarrow> tool_call_body x s = Inl TypeError"
  by (auto simp add: tool_call_body_def bind_res_def)

lemma tool_call_body_returns:
  "x \<noteq> JUndefined \<Longrightarrow> x \<noteq> JNull \<Longrightarrow>
   \<exists>s'. tool_call_body x s = Inr s' \<and> message s' = message s"
  by (cases x) (simp_all add: tool_call_body_def bind_res_def push_def)

lemma for_of_tool_calls_returns:
  "list_all (\<lambda>x. x \<noteq> JUndefined \<and> x \<noteq> JNull) xs \<Longrightarrow>
   \<exists>s'. for_of tool_call_body xs s = Inr s' \<and> message s' = message s"
proof (induction xs arbitrary: s)
  case Nil
  then show ?case by simp
next
  case (Cons x xs)
  then obtain s1 where s1: "tool_call_body x s = Inr s1" "message s1 = message s"
    using tool_call_body_returns [of x s] by auto
  from Cons obtain s2 where "for_of tool_call_body xs s1 = Inr s2" "message s2 = message s1"
    by fastforce
  with s1 show ?case
    by (simp add: bind_res_def)
qed

lemma for_of_tool_calls_throws:
  "\<not> list_all (\<lambda>x. x \<noteq> JUndefined \<and> x \<noteq> JNull) xs \<Longrightarrow>
   for_of tool_call_body xs s = Inl TypeError"
proof (induction xs arbitrary: s)
  case Nil
  then show ?case by simp
next
  case (Cons x xs)
  show ?case
  proof (cases "x = JUndefined \<or> x = JNull")
    case True
    then show ?thesis
      by (simp add: tool_call_body_throws bind_res_def)
  next
    case False
    then obtain s1 where "tool_call_body x s = Inr s1"
      using tool_call_body_returns [of x s] by auto
    with Cons False show ?thesis
      by (simp add: bind_res_def)
  qed
qed

lemma tool_call_step_returns:
  assumes "safe_tool_calls (tool_calls (message s))"
  shows "\<exists>s'. tool_call_step s = Inr s' \<and> message s' = message s"
proof (cases "tool_calls (message s)")
  case (JStr cs)
  have "list_all (\<lambda>x. x \<noteq> JUndefined \<and> x \<noteq> JNull) (map (\<lambda>c. JStr [c]) cs)"
    by (simp add: list_all_iff)
  then show ?thesis
    using JStr for_of_tool_calls_returns [of "map (\<lambda>c. JStr [c]) cs" s]
    by (simp add: tool_call_step_def nullish_coalesce_def bind_res_def)
next
  case (JArr xs)
  with assms show ?thesis
    using for_of_tool_calls_returns [of xs s]
    by (simp add: tool_call_step_def nullish_coalesce_def bind_res_def)
qed (use assms in \<open>simp_all add: tool_call_step_def nullish_coalesce_def bind_res_def\<close>)

lemma tool_call_step_throws:
  "\<not> safe_tool_calls (tool_calls (message s)) \<Longrightarrow> tool_call_step s = Inl TypeError"
  by (cases "tool_calls (message s)")
     (simp_all add: tool_call_step_def nullish_coalesce_def bind_res_def
        for_of_tool_calls_throws)

lemma body_returns:
  assumes "safe_tool_calls (tool_calls (message s))"
  shows "\<exists>s'. body s = Inr s' \<and> message s' = message s"
proof -
  let ?s2 = "s\<lparr>blocks := blocks s @ spec_reasoning_blocks (message s)
               @ spec_content_blocks (message s)\<rparr>"
  from assms have "safe_tool_calls (tool_calls (message ?s2))" by simp
  then obtain s' where "tool_call_step ?s2 = Inr s'" "message s' = message ?s2"
    using tool_call_step_returns [of ?s2] by blast
  then show ?thesis
    by (simp add: body_def bind_res_def reasoning_step_spec content_step_spec)
qed

lemma body_throws:
  assumes "\<not> safe_tool_calls (tool_calls (message s))"
  shows "body s = Inl TypeError"
  using assms
  by (simp add: body_def bind_res_def reasoning_step_spec content_step_spec
      tool_call_step_throws)

section \<open>Types of the blocks\<close>

lemma has_type_tool_call_block: "has_type t (spec_tool_call_block kvs) = (t = ''tool_call'')"
  by (auto simp add: has_type_def spec_tool_call_block_def)

lemma filter_has_type_reasoning_blocks:
  "filter (has_type t) (spec_reasoning_blocks m) =
     (if t = ''reasoning'' then spec_reasoning_blocks m else [])"
  by (auto simp add: spec_reasoning_blocks_def has_type_def split: option.split)

lemma filter_has_type_tool_call_blocks:
  "filter (has_type t) (map spec_tool_call_block tcs) =
     (if t = ''tool_call'' then map spec_tool_call_block tcs else [])"
  by (induction tcs) (simp_all add: has_type_tool_call_block)

lemma length_spec_reasoning_blocks: "length (spec_reasoning_blocks m) \<le> Suc 0"
  by (simp add: spec_reasoning_blocks_def split: option.split)

section \<open>Properties of the translator\<close>

subsection \<open>The reasoning block\<close>

text \<open>
  A content array may itself hold a block of type \<^verbatim>\<open>reasoning\<close>. It is forwarded
  unchanged, so the output has a block of type \<^verbatim>\<open>reasoning\<close> although the metadata
  bag has no \<^verbatim>\<open>reasoning_content\<close>.
\<close>

theorem reasoning_counterexample:
  "spec_reasoning (JObj []) = None \<and>
   convertToV1FromDeepSeek (AIMessage
     \<lparr> content = JArr [JObj [(''type'', JStr ''reasoning''), (''reasoning'', JStr ''x'')]],
       additional_kwargs = JObj [],
       tool_calls = JUndefined,
       response_metadata = JObj [(''model_provider'', JStr ''deepseek'')] \<rparr>)
     = Inr [JObj [(''type'', JStr ''reasoning''), (''reasoning'', JStr ''x'')]] \<and>
   has_type ''reasoning'' (JObj [(''type'', JStr ''reasoning''), (''reasoning'', JStr ''x'')])"
  by (simp add: convertToV1FromDeepSeek_def body_def reasoning_step_def reasoning_cond_def
      js_and_def bind_res_def isObject_def isString_def content_step_def tool_call_step_def
      nullish_coalesce_def push_def has_type_def)

text \<open>
  C1, amended. For every message of the declared type (\<^verbatim>\<open>tool_calls\<close> absent or an
  array of objects), the reasoning step emits a reasoning block if and only if
  \<^verbatim>\<open>additional_kwargs\<close> carries a \<^verbatim>\<open>reasoning_content\<close> that is present, a string and of
  non-zero length (no trimming). When emitted, the block is the first element of
  the output and is \<^verbatim>\<open>{type: "reasoning", reasoning: R}\<close> with the string \<open>R\<close>
  verbatim. When \<^verbatim>\<open>reasoning_content\<close> is absent, null, not a string or empty, the
  step emits nothing and the output is the content blocks followed by the
  tool-call blocks; a block of type \<^verbatim>\<open>reasoning\<close> then appears in the output only
  if the content array itself holds one.
\<close>

theorem reasoning_block_iff:
  "spec_tool_calls (tool_calls (fields_of m)) = Some tcs \<Longrightarrow>
   \<exists>bs. convertToV1FromDeepSeek m = Inr bs \<and>
     (case spec_reasoning (additional_kwargs (fields_of m)) of
        Some r \<Rightarrow>
          reasoning_step \<lparr>message = fields_of m, blocks = []\<rparr>
            = Inr \<lparr>message = fields_of m,
                   blocks = [JObj [(''type'', JStr ''reasoning''), (''reasoning'', JStr r)]]\<rparr> \<and>
          bs \<noteq> [] \<and>
          bs ! 0 = JObj [(''type'', JStr ''reasoning''), (''reasoning'', JStr r)]
      | None \<Rightarrow>
          reasoning_step \<lparr>message = fields_of m, blocks = []\<rparr>
            = Inr \<lparr>message = fields_of m, blocks = []\<rparr> \<and>
          bs = spec_content_blocks (fields_of m) @ map spec_tool_call_block tcs \<and>
          (\<not> list_ex (has_type ''reasoning'') (spec_content_blocks (fields_of m))
             \<longrightarrow> \<not> list_ex (has_type ''reasoning'') bs))"
proof (cases "spec_reasoning (additional_kwargs (fields_of m))")
  case None
  assume t: "spec_tool_calls (tool_calls (fields_of m)) = Some tcs"
  have "\<not> list_ex (has_type ''reasoning'') (map spec_tool_call_block tcs)"
    by (simp add: list_ex_iff has_type_tool_call_block)
  then show ?thesis
    using None convert_concat [OF t]
    by (simp add: reasoning_step_spec spec_reasoning_blocks_def)
next
  case (Some r)
  assume t: "spec_tool_calls (tool_calls (fields_of m)) = Some tcs"
  show ?thesis
    using Some convert_concat [OF t]
    by (simp add: reasoning_step_spec spec_reasoning_blocks_def)
qed

text \<open>
  A whitespace-only reasoning string is emitted; with the empty string, or with
  null, and a string content no block of type \<^verbatim>\<open>reasoning\<close> appears.
\<close>

theorem reasoning_block_iff_witness:
  "(\<exists>bs. convertToV1FromDeepSeek (AIMessage
       \<lparr> content = JStr ''Answer'',
         additional_kwargs = JObj [(''reasoning_content'', JStr '' '')],
         tool_calls = JUndefined, response_metadata = JUndefined \<rparr>) = Inr bs
      \<and> bs \<noteq> [] \<and> bs ! 0 = JObj [(''type'', JStr ''reasoning''), (''reasoning'', JStr '' '')])
   \<and> (\<exists>bs. convertToV1FromDeepSeek (AIMessage
       \<lparr> content = JStr ''Answer'',
         additional_kwargs = JObj [(''reasoning_content'', JStr '''')],
         tool_calls = JUndefined, response_metadata = JUndefined \<rparr>) = Inr bs
      \<and> \<not> list_ex (has_type ''reasoning'') bs)
   \<and> (\<exists>bs. convertToV1FromDeepSeek (AIMessage
       \<lparr> content = JStr ''Answer'',
         additional_kwargs = JObj [(''reasoning_content'', JNull)],
         tool_calls = JArr [], response_metadata = JUndefined \<rparr>) = Inr bs
      \<and> \<not> list_ex (has_type ''reasoning'') bs)"
  using reasoning_block_iff [of "AIMessage
       \<lparr> content = JStr ''Answer'',
         additional_kwargs = JObj [(''reasoning_content'', JStr '' '')],
         tool_calls = JUndefined, response_metadata = JUndefined \<rparr>" "[]"]
    reasoning_block_iff [of "AIMessage
       \<lparr> content = JStr ''Answer'',
         additional_kwargs = JObj [(''reasoning_content'', JStr '''')],
         tool_calls = JUndefined, response_metadata = JUndefined \<rparr>" "[]"]
    reasoning_block_iff [of "AIMessage
       \<lparr> content = JStr ''Answer'',
         additional_kwargs = JObj [(''reasoning_content'', JNull)],
         tool_calls = JArr [], response_metadata = JUndefined \<rparr>" "[]"]
  by (auto simp add: spec_content_blocks_def has_type_def)

subsection \<open>String content\<close>

text \<open>
  C2. For every message of the declared type whose content is a string \<open>s\<close> (the
  empty string included), the output holds exactly one text block, the object
  \<^verbatim>\<open>{type: "text", text: s}\<close> with \<open>s\<close> verbatim, right after the reasoning block if
  one is emitted and first otherwise; with no reasoning and no tool calls the
  output is exactly that one text block.
\<close>

theorem string_content_one_text_block:
  "content (fields_of m) = JStr s \<Longrightarrow>
   spec_tool_calls (tool_calls (fields_of m)) = Some tcs \<Longrightarrow>
   \<exists>bs. convertToV1FromDeepSeek m = Inr bs \<and>
     bs = spec_reasoning_blocks (fields_of m)
            @ [JObj [(''type'', JStr ''text''), (''text'', JStr s)]]
            @ map spec_tool_call_block tcs \<and>
     length (spec_reasoning_blocks (fields_of m)) \<le> 1 \<and>
     bs ! length (spec_reasoning_blocks (fields_of m))
       = JObj [(''type'', JStr ''text''), (''text'', JStr s)] \<and>
     get_prop (bs ! length (spec_reasoning_blocks (fields_of m))) ''text'' = Inr (JStr s) \<and>
     filter (has_type ''text'') bs = [JObj [(''type'', JStr ''text''), (''text'', JStr s)]] \<and>
     (spec_reasoning (additional_kwargs (fields_of m)) = None \<and> tcs = []
        \<longrightarrow> bs = [JObj [(''type'', JStr ''text''), (''text'', JStr s)]])"
proof -
  assume c: "content (fields_of m) = JStr s"
    and t: "spec_tool_calls (tool_calls (fields_of m)) = Some tcs"
  have e: "spec_reasoning (additional_kwargs (fields_of m)) = None
      \<longrightarrow> spec_reasoning_blocks (fields_of m) = []"
    by (simp add: spec_reasoning_blocks_def)
  from c e show ?thesis
    using convert_concat [OF t]
    by (simp add: spec_content_blocks_def length_spec_reasoning_blocks
        filter_has_type_reasoning_blocks filter_has_type_tool_call_blocks has_type_def
        nth_append)
qed

text \<open>
  Empty content, no metadata bag, no tool calls: one empty text block. The
  message of the test "should handle messages with reasoning and tool calls".
\<close>

theorem string_content_one_text_block_witness:
  "convertToV1FromDeepSeek (AIMessage
       \<lparr> content = JStr '''', additional_kwargs = JUndefined,
         tool_calls = JUndefined, response_metadata = JUndefined \<rparr>)
     = Inr [JObj [(''type'', JStr ''text''), (''text'', JStr '''')]] \<and>
   convertToV1FromDeepSeek (AIMessage
       \<lparr> content = JStr ''I'll check the weather'',
         additional_kwargs =
           JObj [(''reasoning_content'', JStr ''User wants weather information...'')],
         tool_calls = JArr [JObj [(''id'', JStr ''call_123''), (''name'', JStr ''get_weather''),
                                  (''args'', JObj [(''location'', JStr ''SF'')])]],
         response_metadata = JObj [(''model_provider'', JStr ''deepseek'')] \<rparr>)
     = Inr [JObj [(''type'', JStr ''reasoning''),
                  (''reasoning'', JStr ''User wants weather information...'')],
            JObj [(''type'', JStr ''text''), (''text'', JStr ''I'll check the weather'')],
            JObj [(''type'', JStr ''tool_call''), (''id'', JStr ''call_123''),
                  (''name'', JStr ''get_weather''),
                  (''args'', JObj [(''location'', JStr ''SF'')])]]"
  using string_content_one_text_block [of "AIMessage
       \<lparr> content = JStr '''', additional_kwargs = JUndefined,
         tool_calls = JUndefined, response_metadata = JUndefined \<rparr>" "''''" "[]"]
    string_content_one_text_block [of "AIMessage
       \<lparr> content = JStr ''I'll check the weather'',
         additional_kwargs =
           JObj [(''reasoning_content'', JStr ''User wants weather information...'')],
         tool_calls = JArr [JObj [(''id'', JStr ''call_123''), (''name'', JStr ''get_weather''),
                                  (''args'', JObj [(''location'', JStr ''SF'')])]],
         response_metadata = JObj [(''model_provider'', JStr ''deepseek'')] \<rparr>"
       "''I'll check the weather''"
       "[[(''id'', JStr ''call_123''), (''name'', JStr ''get_weather''),
          (''args'', JObj [(''location'', JStr ''SF'')])]]"]
  by (simp add: spec_reasoning_blocks_def spec_tool_call_block_def entry_value_def)

subsection \<open>Array content\<close>

text \<open>
  C3. For every message of the declared type whose content is an array of \<open>N\<close>
  elements, the elements are forwarded unchanged and in order: the output is
  the reasoning block (at most one), then exactly these \<open>N\<close> elements, then the
  tool-call blocks.
\<close>

theorem array_content_passthrough:
  "content (fields_of m) = JArr xs \<Longrightarrow>
   spec_tool_calls (tool_calls (fields_of m)) = Some tcs \<Longrightarrow>
   \<exists>bs. convertToV1FromDeepSeek m = Inr bs \<and>
     bs = spec_reasoning_blocks (fields_of m) @ xs @ map spec_tool_call_block tcs \<and>
     length (spec_reasoning_blocks (fields_of m)) \<le> 1 \<and>
     take (length xs) (drop (length (spec_reasoning_blocks (fields_of m))) bs) = xs \<and>
     length bs = length (spec_reasoning_blocks (fields_of m)) + length xs + length tcs"
proof -
  assume c: "content (fields_of m) = JArr xs"
    and t: "spec_tool_calls (tool_calls (fields_of m)) = Some tcs"
  from c show ?thesis
    using convert_concat [OF t]
    by (simp add: spec_content_blocks_def length_spec_reasoning_blocks)
qed

text \<open>Elements of any shape are forwarded as they are.\<close>

theorem array_content_passthrough_witness:
  "convertToV1FromDeepSeek (AIMessage
       \<lparr> content = JArr [JObj [(''type'', JStr ''text''), (''text'', JStr ''First part'')],
                         JNull, JNum 7],
         additional_kwargs = JObj [(''reasoning_content'', JStr ''Analyzing...'')],
         tool_calls = JUndefined, response_metadata = JUndefined \<rparr>)
     = Inr [JObj [(''type'', JStr ''reasoning''), (''reasoning'', JStr ''Analyzing...'')],
            JObj [(''type'', JStr ''text''), (''text'', JStr ''First part'')], JNull, JNum 7]"
  using array_content_passthrough [of "AIMessage
       \<lparr> content = JArr [JObj [(''type'', JStr ''text''), (''text'', JStr ''First part'')],
                         JNull, JNum 7],
         additional_kwargs = JObj [(''reasoning_content'', JStr ''Analyzing...'')],
         tool_calls = JUndefined, response_metadata = JUndefined \<rparr>"
       "[JObj [(''type'', JStr ''text''), (''text'', JStr ''First part'')], JNull, JNum 7]"
       "[]"]
  by (simp add: spec_reasoning_blocks_def)

subsection \<open>Tool calls\<close>

text \<open>
  A content array may itself hold a block of type \<^verbatim>\<open>tool_call\<close>. It is forwarded
  unchanged, so the output has a block of type \<^verbatim>\<open>tool_call\<close> although the message
  has no tool calls.
\<close>

theorem tool_call_counterexample:
  "convertToV1FromDeepSeek (AIMessage
     \<lparr> content = JArr [JObj [(''type'', JStr ''tool_call''), (''id'', JStr ''call_1''),
                             (''name'', JStr ''get_weather''), (''args'', JObj [])]],
       additional_kwargs = JObj [],
       tool_calls = JUndefined,
       response_metadata = JObj [(''model_provider'', JStr ''deepseek'')] \<rparr>)
     = Inr [JObj [(''type'', JStr ''tool_call''), (''id'', JStr ''call_1''),
                  (''name'', JStr ''get_weather''), (''args'', JObj [])]] \<and>
   has_type ''tool_call'' (JObj [(''type'', JStr ''tool_call''), (''id'', JStr ''call_1''),
                  (''name'', JStr ''get_weather''), (''args'', JObj [])])"
  by (simp add: convertToV1FromDeepSeek_def body_def reasoning_step_def reasoning_cond_def
      js_and_def bind_res_def isObject_def isString_def content_step_def tool_call_step_def
      nullish_coalesce_def push_def has_type_def)

text \<open>
  C4, amended. For every message whose \<^verbatim>\<open>tool_calls\<close> is an array of \<open>N\<close> objects, the
  last \<open>N\<close> blocks of the output are, in the original order, the objects
  \<^verbatim>\<open>{type: "tool_call", id, name, args}\<close> with the \<^verbatim>\<open>id\<close>, \<^verbatim>\<open>name\<close> and \<^verbatim>\<open>args\<close> read from
  the entry, unchanged. The blocks of type \<^verbatim>\<open>tool_call\<close> in the output are these \<open>N\<close>
  and those that a content array itself holds. When \<^verbatim>\<open>tool_calls\<close> is absent nothing
  follows the content blocks.
\<close>

theorem tool_call_blocks_last:
  "(tool_calls (fields_of m) = JArr (map JObj tcs) \<longrightarrow>
      (\<exists>bs. convertToV1FromDeepSeek m = Inr bs \<and>
         bs = (spec_reasoning_blocks (fields_of m) @ spec_content_blocks (fields_of m))
                @ map (\<lambda>e. JObj [(''type'', JStr ''tool_call''), (''id'', entry_value e ''id''),
                                  (''name'', entry_value e ''name''),
                                  (''args'', entry_value e ''args'')]) tcs \<and>
         drop (length bs - length tcs) bs
           = map (\<lambda>e. JObj [(''type'', JStr ''tool_call''), (''id'', entry_value e ''id''),
                             (''name'', entry_value e ''name''),
                             (''args'', entry_value e ''args'')]) tcs \<and>
         (\<forall>i<length tcs.
            get_prop (bs ! (length bs - length tcs + i)) ''type'' = Inr (JStr ''tool_call'') \<and>
            get_prop (bs ! (length bs - length tcs + i)) ''id''
              = get_prop (JObj (tcs ! i)) ''id'' \<and>
            get_prop (bs ! (length bs - length tcs + i)) ''name''
              = get_prop (JObj (tcs ! i)) ''name'' \<and>
            get_prop (bs ! (length bs - length tcs + i)) ''args''
              = get_prop (JObj (tcs ! i)) ''args'') \<and>
         length (filter (has_type ''tool_call'') bs)
           = length (filter (has_type ''tool_call'') (spec_content_blocks (fields_of m)))
             + length tcs)) \<and>
   (tool_calls (fields_of m) = JUndefined \<or> tool_calls (fields_of m) = JNull \<longrightarrow>
      (\<exists>bs. convertToV1FromDeepSeek m = Inr bs \<and>
         bs = spec_reasoning_blocks (fields_of m) @ spec_content_blocks (fields_of m) \<and>
         length (filter (has_type ''tool_call'') bs)
           = length (filter (has_type ''tool_call'') (spec_content_blocks (fields_of m)))))"
proof (intro conjI impI)
  assume a: "tool_calls (fields_of m) = JArr (map JObj tcs)"
  have t: "spec_tool_calls (tool_calls (fields_of m)) = Some tcs"
    unfolding a by (rule spec_tool_calls_objects)
  let ?P = "spec_reasoning_blocks (fields_of m) @ spec_content_blocks (fields_of m)"
  let ?T = "map spec_tool_call_block tcs"
  have b: "spec_tool_call_block = (\<lambda>e. JObj [(''type'', JStr ''tool_call''),
      (''id'', entry_value e ''id''), (''name'', entry_value e ''name''),
      (''args'', entry_value e ''args'')])"
    by (rule ext) (simp add: spec_tool_call_block_def)
  have r: "get_prop ((?P @ ?T) ! (length (?P @ ?T) - length tcs + i)) ''type''
             = Inr (JStr ''tool_call'') \<and>
           get_prop ((?P @ ?T) ! (length (?P @ ?T) - length tcs + i)) ''id''
             = get_prop (JObj (tcs ! i)) ''id'' \<and>
           get_prop ((?P @ ?T) ! (length (?P @ ?T) - length tcs + i)) ''name''
             = get_prop (JObj (tcs ! i)) ''name'' \<and>
           get_prop ((?P @ ?T) ! (length (?P @ ?T) - length tcs + i)) ''args''
             = get_prop (JObj (tcs ! i)) ''args''" if "i < length tcs" for i
    using that by (simp add: nth_append spec_tool_call_block_def entry_value_def)
  have "convertToV1FromDeepSeek m = Inr (?P @ ?T)"
    using convert_concat [OF t] by simp
  moreover have "drop (length (?P @ ?T) - length tcs) (?P @ ?T) = ?T"
    by simp
  moreover have "length (filter (has_type ''tool_call'') (?P @ ?T))
      = length (filter (has_type ''tool_call'') (spec_content_blocks (fields_of m)))
        + length tcs"
    by (simp add: filter_has_type_reasoning_blocks filter_has_type_tool_call_blocks)
  ultimately show "\<exists>bs. convertToV1FromDeepSeek m = Inr bs \<and>
         bs = (spec_reasoning_blocks (fields_of m) @ spec_content_blocks (fields_of m))
                @ map (\<lambda>e. JObj [(''type'', JStr ''tool_call''), (''id'', entry_value e ''id''),
                                  (''name'', entry_value e ''name''),
                                  (''args'', entry_value e ''args'')]) tcs \<and>
         drop (length bs - length tcs) bs
           = map (\<lambda>e. JObj [(''type'', JStr ''tool_call''), (''id'', entry_value e ''id''),
                             (''name'', entry_value e ''name''),
                             (''args'', entry_value e ''args'')]) tcs \<and>
         (\<forall>i<length tcs.
            get_prop (bs ! (length bs - length tcs + i)) ''type'' = Inr (JStr ''tool_call'') \<and>
            get_prop (bs ! (length bs - length tcs + i)) ''id''
              = get_prop (JObj (tcs ! i)) ''id'' \<and>
            get_prop (bs ! (length bs - length tcs + i)) ''name''
              = get_prop (JObj (tcs ! i)) ''name'' \<and>
            get_prop (bs ! (length bs - length tcs + i)) ''args''
              = get_prop (JObj (tcs ! i)) ''args'') \<and>
         length (filter (has_type ''tool_call'') bs)
           = length (filter (has_type ''tool_call'') (spec_content_blocks (fields_of m)))
             + length tcs"
    using r unfolding b [symmetric] by blast
next
  assume "tool_calls (fields_of m) = JUndefined \<or> tool_calls (fields_of m) = JNull"
  then have t: "spec_tool_calls (tool_calls (fields_of m)) = Some []"
    by auto
  show "\<exists>bs. convertToV1FromDeepSeek m = Inr bs \<and>
         bs = spec_reasoning_blocks (fields_of m) @ spec_content_blocks (fields_of m) \<and>
         length (filter (has_type ''tool_call'') bs)
           = length (filter (has_type ''tool_call'') (spec_content_blocks (fields_of m)))"
    using convert_concat [OF t]
    by (simp add: filter_has_type_reasoning_blocks)
qed

text \<open>
  A message without tool calls, and the message of the test "should handle
  multiple tool calls".
\<close>

theorem tool_call_blocks_last_witness:
  "convertToV1FromDeepSeek (AIMessage
       \<lparr> content = JStr ''Hello world'', additional_kwargs = JUndefined,
         tool_calls = JUndefined, response_metadata = JUndefined \<rparr>)
     = Inr [JObj [(''type'', JStr ''text''), (''text'', JStr ''Hello world'')]] \<and>
   convertToV1FromDeepSeek (AIMessage
       \<lparr> content = JStr ''I'll check both'',
         additional_kwargs =
           JObj [(''reasoning_content'', JStr ''Need to check weather and population...'')],
         tool_calls =
           JArr (map JObj
             [[(''id'', JStr ''call_1''), (''name'', JStr ''get_weather''),
               (''args'', JObj [(''location'', JStr ''NYC'')])],
              [(''id'', JStr ''call_2''), (''name'', JStr ''get_population''),
               (''args'', JObj [(''location'', JStr ''NYC'')])]]),
         response_metadata = JObj [(''model_provider'', JStr ''deepseek'')] \<rparr>)
     = Inr [JObj [(''type'', JStr ''reasoning''),
                  (''reasoning'', JStr ''Need to check weather and population...'')],
            JObj [(''type'', JStr ''text''), (''text'', JStr ''I'll check both'')],
            JObj [(''type'', JStr ''tool_call''), (''id'', JStr ''call_1''),
                  (''name'', JStr ''get_weather''),
                  (''args'', JObj [(''location'', JStr ''NYC'')])],
            JObj [(''type'', JStr ''tool_call''), (''id'', JStr ''call_2''),
                  (''name'', JStr ''get_population''),
                  (''args'', JObj [(''location'', JStr ''NYC'')])]]"
  using tool_call_blocks_last [of "AIMessage
       \<lparr> content = JStr ''Hello world'', additional_kwargs = JUndefined,
         tool_calls = JUndefined, response_metadata = JUndefined \<rparr>" "[]"]
    tool_call_blocks_last [of "AIMessage
       \<lparr> content = JStr ''I'll check both'',
         additional_kwargs =
           JObj [(''reasoning_content'', JStr ''Need to check weather and population...'')],
         tool_calls =
           JArr (map JObj
             [[(''id'', JStr ''call_1''), (''name'', JStr ''get_weather''),
               (''args'', JObj [(''location'', JStr ''NYC'')])],
              [(''id'', JStr ''call_2''), (''name'', JStr ''get_population''),
               (''args'', JObj [(''location'', JStr ''NYC'')])]]),
         response_metadata = JObj [(''model_provider'', JStr ''deepseek'')] \<rparr>"
       "[[(''id'', JStr ''call_1''), (''name'', JStr ''get_weather''),
          (''args'', JObj [(''location'', JStr ''NYC'')])],
         [(''id'', JStr ''call_2''), (''name'', JStr ''get_population''),
          (''args'', JObj [(''location'', JStr ''NYC'')])]]"]
  by (auto simp add: spec_reasoning_blocks_def spec_content_blocks_def entry_value_def)

subsection \<open>Order of the output\<close>

text \<open>
  C5. For every message of the declared type the output is exactly the
  concatenation, in this order, of the reasoning block (at most one), the
  content-derived blocks in their original order and the tool-call blocks in
  their original order.
\<close>

theorem output_is_fixed_order_concatenation:
  "spec_tool_calls (tool_calls (fields_of m)) = Some tcs \<Longrightarrow>
   convertToV1FromDeepSeek m =
     Inr (spec_reasoning_blocks (fields_of m) @ spec_content_blocks (fields_of m)
          @ map spec_tool_call_block tcs) \<and>
   length (spec_reasoning_blocks (fields_of m)) \<le> 1"
  by (simp add: convert_concat length_spec_reasoning_blocks)

text \<open>
  An array content with a reasoning string and two tool calls: every block in
  its place.
\<close>

theorem output_is_fixed_order_concatenation_witness:
  "convertToV1FromDeepSeek (AIMessageChunk
       \<lparr> content = JArr [JObj [(''type'', JStr ''text''), (''text'', JStr ''First part'')],
                         JObj [(''type'', JStr ''text''), (''text'', JStr ''Second part'')]],
         additional_kwargs = JObj [(''reasoning_content'', JStr ''Analyzing...'')],
         tool_calls =
           JArr [JObj [(''name'', JStr ''get_weather''), (''args'', JObj []),
                       (''id'', JStr ''call_1''), (''type'', JStr ''tool_call'')],
                 JObj [(''name'', JStr ''get_population''), (''args'', JObj [])]],
         response_metadata = JObj [(''model_provider'', JStr ''deepseek'')] \<rparr>)
     = Inr [JObj [(''type'', JStr ''reasoning''), (''reasoning'', JStr ''Analyzing...'')],
            JObj [(''type'', JStr ''text''), (''text'', JStr ''First part'')],
            JObj [(''type'', JStr ''text''), (''text'', JStr ''Second part'')],
            JObj [(''type'', JStr ''tool_call''), (''id'', JStr ''call_1''),
                  (''name'', JStr ''get_weather''), (''args'', JObj [])],
            JObj [(''type'', JStr ''tool_call''), (''id'', JUndefined),
                  (''name'', JStr ''get_population''), (''args'', JObj [])]]"
  using output_is_fixed_order_concatenation [of "AIMessageChunk
       \<lparr> content = JArr [JObj [(''type'', JStr ''text''), (''text'', JStr ''First part'')],
                         JObj [(''type'', JStr ''text''), (''text'', JStr ''Second part'')]],
         additional_kwargs = JObj [(''reasoning_content'', JStr ''Analyzing...'')],
         tool_calls =
           JArr [JObj [(''name'', JStr ''get_weather''), (''args'', JObj []),
                       (''id'', JStr ''call_1''), (''type'', JStr ''tool_call'')],
                 JObj [(''name'', JStr ''get_population''), (''args'', JObj [])]],
         response_metadata = JObj [(''model_provider'', JStr ''deepseek'')] \<rparr>"
       "[[(''name'', JStr ''get_weather''), (''args'', JObj []),
          (''id'', JStr ''call_1''), (''type'', JStr ''tool_call'')],
         [(''name'', JStr ''get_population''), (''args'', JObj [])]]"]
  by (simp add: spec_reasoning_blocks_def spec_content_blocks_def spec_tool_call_block_def
      entry_value_def)

subsection \<open>Translating merged chunks\<close>

text \<open>
  C6. With the merge of the spec (string contents concatenate, reasoning strings
  concatenate without separator, a stitching of tool calls that makes no tool
  call out of none), translating the merge of the two chunks of the test gives
  exactly the reasoning block "Part 1 Part 2" followed by the text block
  "Answer".
\<close>

theorem merge_law:
  "stitch [] [] = [] \<Longrightarrow>
   map_option convertToV1FromDeepSeek (merge stitch chunk1 chunk2)
     = Some (Inr [JObj [(''type'', JStr ''reasoning''), (''reasoning'', JStr ''Part 1 Part 2'')],
                  JObj [(''type'', JStr ''text''), (''text'', JStr ''Answer'')]])"
proof -
  assume s: "stitch [] [] = []"
  have m: "merge stitch chunk1 chunk2 = Some (AIMessageChunk
       \<lparr> content = JStr ''Answer'',
         additional_kwargs = JObj [(''reasoning_content'', JStr ''Part 1 Part 2'')],
         tool_calls = JArr [],
         response_metadata = JObj [(''model_provider'', JStr ''deepseek'')] \<rparr>)"
    using s
    by (simp add: merge_def chunk1_def chunk2_def merge_kwargs_def reasoning_string_def
        string_or_empty_def)
  have "spec_tool_calls (tool_calls (fields_of (AIMessageChunk
       \<lparr> content = JStr ''Answer'',
         additional_kwargs = JObj [(''reasoning_content'', JStr ''Part 1 Part 2'')],
         tool_calls = JArr [],
         response_metadata = JObj [(''model_provider'', JStr ''deepseek'')] \<rparr>))) = Some []"
    by simp
  from convert_concat [OF this] m show ?thesis
    by (simp add: spec_reasoning_blocks_def spec_content_blocks_def)
qed

text \<open>Appending the two lists is such a stitching.\<close>

theorem merge_law_witness:
  "map_option convertToV1FromDeepSeek (merge (\<lambda>a b. a @ b) chunk1 chunk2)
     = Some (Inr [JObj [(''type'', JStr ''reasoning''), (''reasoning'', JStr ''Part 1 Part 2'')],
                  JObj [(''type'', JStr ''text''), (''text'', JStr ''Answer'')]])"
  using merge_law [of "\<lambda>a b. a @ b"] by simp

subsection \<open>Exceptions\<close>

text \<open>
  The loop over the tool calls reads \<^verbatim>\<open>toolCall.id\<close> with no guard: a null entry
  makes the translator throw, and so does a \<^verbatim>\<open>tool_calls\<close> that cannot be iterated.
\<close>

theorem never_throws_counterexample:
  "convertToV1FromDeepSeek (AIMessage
     \<lparr> content = JStr ''Answer'',
       additional_kwargs = JObj [],
       tool_calls = JArr [JNull],
       response_metadata = JObj [(''model_provider'', JStr ''deepseek'')] \<rparr>)
     = Inl TypeError \<and>
   convertToV1FromDeepSeek (AIMessage
     \<lparr> content = JStr ''Answer'',
       additional_kwargs = JObj [],
       tool_calls = JNum 5,
       response_metadata = JObj [(''model_provider'', JStr ''deepseek'')] \<rparr>)
     = Inl TypeError"
  by (simp add: convertToV1FromDeepSeek_def body_def reasoning_step_def reasoning_cond_def
      js_and_def bind_res_def isObject_def isString_def content_step_def tool_call_step_def
      tool_call_body_def nullish_coalesce_def push_def)

text \<open>
  C7, amended. The translator returns a block sequence and throws nothing for
  every message whose \<^verbatim>\<open>tool_calls\<close> is absent (undefined or null), a string, or an
  array with no undefined or null entry, whatever \<^verbatim>\<open>content\<close> and
  \<^verbatim>\<open>additional_kwargs\<close> are (missing, null or of the wrong type, with elements of any
  shape in a content array): every property read of the reasoning step is
  behind its guard. For any other \<^verbatim>\<open>tool_calls\<close> it throws a TypeError.
\<close>

theorem convert_returns_iff_safe_tool_calls:
  "(safe_tool_calls (tool_calls (fields_of m)) \<longrightarrow> (\<exists>bs. convertToV1FromDeepSeek m = Inr bs)) \<and>
   (\<not> safe_tool_calls (tool_calls (fields_of m)) \<longrightarrow> convertToV1FromDeepSeek m = Inl TypeError)"
proof (intro conjI impI)
  assume "safe_tool_calls (tool_calls (fields_of m))"
  then have "safe_tool_calls (tool_calls (message \<lparr>message = fields_of m, blocks = []\<rparr>))"
    by simp
  from body_returns [OF this] show "\<exists>bs. convertToV1FromDeepSeek m = Inr bs"
    by (auto simp add: convertToV1FromDeepSeek_def bind_res_def)
next
  assume "\<not> safe_tool_calls (tool_calls (fields_of m))"
  then have "\<not> safe_tool_calls (tool_calls (message \<lparr>message = fields_of m, blocks = []\<rparr>))"
    by simp
  from body_throws [OF this] show "convertToV1FromDeepSeek m = Inl TypeError"
    by (simp add: convertToV1FromDeepSeek_def bind_res_def)
qed

text \<open>
  No metadata bag; a null and a numeric \<^verbatim>\<open>reasoning_content\<close>; a content that is a
  number; a content array of odd elements; tool calls that are not objects.
\<close>

theorem convert_returns_iff_safe_tool_calls_witness:
  "(\<exists>bs. convertToV1FromDeepSeek (AIMessage
       \<lparr> content = JStr ''Answer'', additional_kwargs = JUndefined,
         tool_calls = JUndefined, response_metadata = JUndefined \<rparr>) = Inr bs) \<and>
   (\<exists>bs. convertToV1FromDeepSeek (AIMessage
       \<lparr> content = JNum 3, additional_kwargs = JObj [(''reasoning_content'', JNull)],
         tool_calls = JNull, response_metadata = JUndefined \<rparr>) = Inr bs) \<and>
   (\<exists>bs. convertToV1FromDeepSeek (AIMessageChunk
       \<lparr> content = JArr [JNull, JUndefined, JNum 1, JArr []],
         additional_kwargs = JObj [(''reasoning_content'', JNum 42)],
         tool_calls = JArr [JNum 1, JStr ''x'', JObj []],
         response_metadata = JUndefined \<rparr>) = Inr bs) \<and>
   convertToV1FromDeepSeek (AIMessage
       \<lparr> content = JStr ''Answer'', additional_kwargs = JNull,
         tool_calls = JArr [JObj [], JUndefined], response_metadata = JUndefined \<rparr>)
     = Inl TypeError"
  using convert_returns_iff_safe_tool_calls [of "AIMessage
       \<lparr> content = JStr ''Answer'', additional_kwargs = JUndefined,
         tool_calls = JUndefined, response_metadata = JUndefined \<rparr>"]
    convert_returns_iff_safe_tool_calls [of "AIMessage
       \<lparr> content = JNum 3, additional_kwargs = JObj [(''reasoning_content'', JNull)],
         tool_calls = JNull, response_metadata = JUndefined \<rparr>"]
    convert_returns_iff_safe_tool_calls [of "AIMessageChunk
       \<lparr> content = JArr [JNull, JUndefined, JNum 1, JArr []],
         additional_kwargs = JObj [(''reasoning_content'', JNum 42)],
         tool_calls = JArr [JNum 1, JStr ''x'', JObj []],
         response_metadata = JUndefined \<rparr>"]
    convert_returns_iff_safe_tool_calls [of "AIMessage
       \<lparr> content = JStr ''Answer'', additional_kwargs = JNull,
         tool_calls = JArr [JObj [], JUndefined], response_metadata = JUndefined \<rparr>"]
  by simp

subsection \<open>Successive calls\<close>

text \<open>
  C8. No step writes to the message object and every call starts with an array
  of its own, so a call leaves the message as it found it, and two successive
  calls on the same message return equal block sequences (or both throw, on a
  \<^verbatim>\<open>tool_calls\<close> outside the declared type).
\<close>

theorem successive_calls_equal:
  "(\<forall>s s'. body s = Inr s' \<longrightarrow> message s' = message s) \<and>
   (safe_tool_calls (tool_calls (fields_of m)) \<longrightarrow>
      (\<exists>bs. convertToV1FromDeepSeek m = Inr bs \<and> two_successive_calls m = Inr (bs, bs))) \<and>
   (\<not> safe_tool_calls (tool_calls (fields_of m)) \<longrightarrow>
      two_successive_calls m = Inl TypeError)"
proof (intro conjI impI allI)
  fix s s'
  assume b: "body s = Inr s'"
  show "message s' = message s"
  proof (cases "safe_tool_calls (tool_calls (message s))")
    case True
    from body_returns [OF True] b show ?thesis by auto
  next
    case False
    from body_throws [OF False] b show ?thesis by simp
  qed
next
  assume "safe_tool_calls (tool_calls (fields_of m))"
  then have "safe_tool_calls (tool_calls (message \<lparr>message = fields_of m, blocks = []\<rparr>))"
    by simp
  from body_returns [OF this] obtain s1 where
    s1: "body \<lparr>message = fields_of m, blocks = []\<rparr> = Inr s1" "message s1 = fields_of m"
    by auto
  then show "\<exists>bs. convertToV1FromDeepSeek m = Inr bs \<and> two_successive_calls m = Inr (bs, bs)"
    by (simp add: convertToV1FromDeepSeek_def two_successive_calls_def bind_res_def)
next
  assume "\<not> safe_tool_calls (tool_calls (fields_of m))"
  then have "\<not> safe_tool_calls (tool_calls (message \<lparr>message = fields_of m, blocks = []\<rparr>))"
    by simp
  from body_throws [OF this] show "two_successive_calls m = Inl TypeError"
    by (simp add: two_successive_calls_def bind_res_def)
qed

text \<open>The message of the test "should translate reasoning_content to reasoning block".\<close>

theorem successive_calls_equal_witness:
  "two_successive_calls (AIMessage
       \<lparr> content = JStr ''J'aime programmer'',
         additional_kwargs =
           JObj [(''reasoning_content'', JStr ''The user wants a French translation...'')],
         tool_calls = JArr [],
         response_metadata = JObj [(''model_provider'', JStr ''deepseek'')] \<rparr>)
   = Inr ([JObj [(''type'', JStr ''reasoning''),
                 (''reasoning'', JStr ''The user wants a French translation...'')],
           JObj [(''type'', JStr ''text''), (''text'', JStr ''J'aime programmer'')]],
          [JObj [(''type'', JStr ''reasoning''),
                 (''reasoning'', JStr ''The user wants a French translation...'')],
           JObj [(''type'', JStr ''text''), (''text'', JStr ''J'aime programmer'')]])"
proof -
  let ?m = "AIMessage
       \<lparr> content = JStr ''J'aime programmer'',
         additional_kwargs =
           JObj [(''reasoning_content'', JStr ''The user wants a French translation...'')],
         tool_calls = JArr [],
         response_metadata = JObj [(''model_provider'', JStr ''deepseek'')] \<rparr>"
  have t: "spec_tool_calls (tool_calls (fields_of ?m)) = Some []"
    by simp
  have "convertToV1FromDeepSeek ?m
     = Inr [JObj [(''type'', JStr ''reasoning''),
                 (''reasoning'', JStr ''The user wants a French translation...'')],
           JObj [(''type'', JStr ''text''), (''text'', JStr ''J'aime programmer'')]]"
    using convert_concat [OF t]
    by (simp add: spec_reasoning_blocks_def spec_content_blocks_def)
  then show ?thesis
    using successive_calls_equal [of ?m] by auto
qed

subsection \<open>Content that is neither a string nor an array\<close>

text \<open>
  C9. For every message of the declared type whose content is neither a string
  nor an array, no content-derived block is emitted: the output is the reasoning
  block (if its condition holds) followed by the tool-call blocks, and is empty
  when there is neither reasoning nor a tool call.
\<close>

theorem other_content_no_block:
  "typeof_js (content (fields_of m)) \<noteq> ''string'' \<Longrightarrow>
   \<not> isArray (content (fields_of m)) \<Longrightarrow>
   spec_tool_calls (tool_calls (fields_of m)) = Some tcs \<Longrightarrow>
   \<exists>bs. convertToV1FromDeepSeek m = Inr bs \<and>
     bs = spec_reasoning_blocks (fields_of m) @ map spec_tool_call_block tcs \<and>
     (spec_reasoning (additional_kwargs (fields_of m)) = None \<and> tcs = [] \<longrightarrow> bs = [])"
proof -
  assume a: "typeof_js (content (fields_of m)) \<noteq> ''string''"
    and b: "\<not> isArray (content (fields_of m))"
    and t: "spec_tool_calls (tool_calls (fields_of m)) = Some tcs"
  have c: "spec_content_blocks (fields_of m) = []"
    using a b by (cases "content (fields_of m)") (simp_all add: spec_content_blocks_def)
  have e: "spec_reasoning (additional_kwargs (fields_of m)) = None
      \<longrightarrow> spec_reasoning_blocks (fields_of m) = []"
    by (simp add: spec_reasoning_blocks_def)
  from c e show ?thesis
    using convert_concat [OF t] by simp
qed

text \<open>
  Undefined content, no metadata bag, no tool calls: the empty sequence. A
  numeric content with reasoning and a tool call: no content block.
\<close>

theorem other_content_no_block_witness:
  "convertToV1FromDeepSeek (AIMessage
       \<lparr> content = JUndefined, additional_kwargs = JUndefined,
         tool_calls = JUndefined, response_metadata = JUndefined \<rparr>) = Inr [] \<and>
   convertToV1FromDeepSeek (AIMessage
       \<lparr> content = JNum 7,
         additional_kwargs = JObj [(''reasoning_content'', JStr ''Thinking...'')],
         tool_calls = JArr [JObj [(''id'', JStr ''call_1''), (''name'', JStr ''f''),
                                  (''args'', JObj [])]],
         response_metadata = JUndefined \<rparr>)
     = Inr [JObj [(''type'', JStr ''reasoning''), (''reasoning'', JStr ''Thinking...'')],
            JObj [(''type'', JStr ''tool_call''), (''id'', JStr ''call_1''),
                  (''name'', JStr ''f''), (''args'', JObj [])]]"
  using other_content_no_block [of "AIMessage
       \<lparr> content = JUndefined, additional_kwargs = JUndefined,
         tool_calls = JUndefined, response_metadata = JUndefined \<rparr>" "[]"]
    other_content_no_block [of "AIMessage
       \<lparr> content = JNum 7,
         additional_kwargs = JObj [(''reasoning_content'', JStr ''Thinking...'')],
         tool_calls = JArr [JObj [(''id'', JStr ''call_1''), (''name'', JStr ''f''),
                                  (''args'', JObj [])]],
         response_metadata = JUndefined \<rparr>"
       "[[(''id'', JStr ''call_1''), (''name'', JStr ''f''), (''args'', JObj [])]]"]
  by (simp add: spec_reasoning_blocks_def spec_tool_call_block_def entry_value_def)

subsection \<open>The registered translator\<close>

text \<open>
  C10. Both entries of the registered translator are the same function, so
  translating a raw message state as a complete message and as a chunk gives
  equal block sequences.
\<close>

theorem translator_same_for_message_and_chunk:
  "translateContent ChatDeepSeekTranslator = convertToV1FromDeepSeek \<and>
   translateContentChunk ChatDeepSeekTranslator = convertToV1FromDeepSeek \<and>
   translateContent ChatDeepSeekTranslator (AIMessage f)
     = translateContentChunk ChatDeepSeekTranslator (AIMessageChunk f)"
  by (simp add: ChatDeepSeekTranslator_def convertToV1FromDeepSeek_def)

end
